theory Spec2Isabelle
  imports Complex_Main
begin

section \<open>Values and exceptions\<close>

text \<open>
  The exceptions the modelled functions can raise. A function that can raise returns
  \<open>error + 'a\<close>, with \<open>Inl\<close> for the exception.
\<close>

datatype error = IndexError | NameError | TypeError | ValueError | AttributeError
  | OverflowError | OtherException

definition e_bind :: "error + 'a \<Rightarrow> ('a \<Rightarrow> error + 'b) \<Rightarrow> error + 'b" where
  "e_bind m f = (case m of Inl e \<Rightarrow> Inl e | Inr v \<Rightarrow> f v)"

text \<open>
  A float is a real number or one of the three special values of IEEE arithmetic. Rounding
  and overflow are not modelled, and zero carries no sign: a non-zero number divided by
  zero takes the sign of the numerator. Division by zero does not raise for numpy floats.
\<close>

datatype fval = Num real | PInf | NInf | NaN

fun fneg :: "fval \<Rightarrow> fval" where
  "fneg (Num x) = Num (- x)"
| "fneg PInf = NInf"
| "fneg NInf = PInf"
| "fneg NaN = NaN"

fun fadd :: "fval \<Rightarrow> fval \<Rightarrow> fval" where
  "fadd (Num x) (Num y) = Num (x + y)"
| "fadd NaN _ = NaN"
| "fadd _ NaN = NaN"
| "fadd PInf NInf = NaN"
| "fadd NInf PInf = NaN"
| "fadd PInf _ = PInf"
| "fadd _ PInf = PInf"
| "fadd NInf _ = NInf"
| "fadd _ NInf = NInf"

definition fsub :: "fval \<Rightarrow> fval \<Rightarrow> fval" where
  "fsub a b = fadd a (fneg b)"

fun fsgn :: "fval \<Rightarrow> real" where
  "fsgn (Num x) = sgn x"
| "fsgn PInf = 1"
| "fsgn NInf = - 1"
| "fsgn NaN = 0"

fun fmul :: "fval \<Rightarrow> fval \<Rightarrow> fval" where
  "fmul (Num x) (Num y) = Num (x * y)"
| "fmul NaN _ = NaN"
| "fmul _ NaN = NaN"
| "fmul a b = (if fsgn a = 0 \<or> fsgn b = 0 then NaN
               else if fsgn a = fsgn b then PInf else NInf)"

fun fdiv :: "fval \<Rightarrow> fval \<Rightarrow> fval" where
  "fdiv (Num x) (Num y) =
     (if y \<noteq> 0 then Num (x / y) else if x = 0 then NaN else if 0 < x then PInf else NInf)"
| "fdiv NaN _ = NaN"
| "fdiv _ NaN = NaN"
| "fdiv (Num x) _ = Num 0"
| "fdiv a (Num y) = (if (0 \<le> y) = (a = PInf) then PInf else NInf)"
| "fdiv _ _ = NaN"

section \<open>Series operations\<close>

text \<open>
  One bar of the fetched history; a DataFrame is the list of its rows in date order. The
  prices and volumes of a fetched history are finite numbers.
\<close>

record bar =
  Open :: real
  High :: real
  Low :: real
  Close :: real
  Volume :: real

type_synonym dataframe = "bar list"

text \<open>\<open>s.iloc[-k]\<close>: the k-th element from the end, IndexError when there is none.\<close>

definition iloc_neg :: "'a list \<Rightarrow> nat \<Rightarrow> error + 'a" where
  "iloc_neg xs k =
     (if 1 \<le> k \<and> k \<le> length xs then Inr (xs ! (length xs - k)) else Inl IndexError)"

text \<open>\<open>s.diff()\<close>: the first entry is missing (\<open>None\<close>), the others are day-over-day changes.\<close>

definition diff :: "real list \<Rightarrow> real option list" where
  "diff xs = (case xs of [] \<Rightarrow> [] | _ # rest \<Rightarrow> None # map2 (\<lambda>a b. Some (b - a)) xs rest)"

text \<open>
  \<open>delta.where(delta > 0, 0)\<close> keeps an entry where the comparison holds and puts 0
  elsewhere; a comparison with the missing entry is false.
\<close>

definition where_pos :: "real option list \<Rightarrow> real list" where
  "where_pos ds = map (\<lambda>d. case d of Some x \<Rightarrow> if 0 < x then x else 0 | None \<Rightarrow> 0) ds"

definition where_neg :: "real option list \<Rightarrow> real list" where
  "where_neg ds = map (\<lambda>d. case d of Some x \<Rightarrow> if x < 0 then x else 0 | None \<Rightarrow> 0) ds"

text \<open>
  \<open>s.rolling(window=w)\<close> followed by an aggregate: entry \<open>i\<close> is the aggregate of the
  \<open>w\<close> entries ending at \<open>i\<close>, and NaN while fewer than \<open>w\<close> entries are available.
\<close>

definition rolling :: "nat \<Rightarrow> (real list \<Rightarrow> fval) \<Rightarrow> real list \<Rightarrow> fval list" where
  "rolling w f xs =
     map (\<lambda>i. if Suc i < w then NaN else f (take w (drop (Suc i - w) xs))) [0..<length xs]"

definition mean :: "real list \<Rightarrow> fval" where
  "mean ys = (if ys = [] then NaN else Num (sum_list ys / real (length ys)))"

text \<open>The sample standard deviation (one degree of freedom removed).\<close>

definition std :: "real list \<Rightarrow> fval" where
  "std ys =
     (if length ys < 2 then NaN
      else let m = sum_list ys / real (length ys)
           in Num (sqrt (sum_list (map (\<lambda>y. (y - m)\<^sup>2) ys) / (real (length ys) - 1))))"

text \<open>
  \<open>s.ewm(span=n).mean()\<close> with the default adjustment: the average of the entries so
  far, weighted by powers of \<open>1 - 2 / (n + 1)\<close>, the latest entry weighing most.
\<close>

definition ewm_mean :: "nat \<Rightarrow> real list \<Rightarrow> real list" where
  "ewm_mean n xs =
     (let a = 2 / (real n + 1)
      in map (\<lambda>t. (\<Sum>i\<leftarrow>[0..<Suc t]. (1 - a) ^ i * xs ! (t - i)) /
                  (\<Sum>i\<leftarrow>[0..<Suc t]. (1 - a) ^ i)) [0..<length xs])"

section \<open>The indicator engine\<close>

definition gain_series :: "real list \<Rightarrow> fval list" where
  "gain_series closes = rolling 14 mean (where_pos (diff closes))"

definition loss_series :: "real list \<Rightarrow> fval list" where
  "loss_series closes = rolling 14 mean (map uminus (where_neg (diff closes)))"

definition rsi_series :: "real list \<Rightarrow> fval list" where
  "rsi_series closes =
     (let rs = map2 fdiv (gain_series closes) (loss_series closes)
      in map (\<lambda>r. fsub (Num 100) (fdiv (Num 100) (fadd (Num 1) r))) rs)"

definition macd_series :: "real list \<Rightarrow> real list" where
  "macd_series closes = map2 (-) (ewm_mean 12 closes) (ewm_mean 26 closes)"

definition signal_series :: "real list \<Rightarrow> real list" where
  "signal_series closes = ewm_mean 9 (macd_series closes)"

definition bb_upper_series :: "real list \<Rightarrow> fval list" where
  "bb_upper_series closes =
     map2 fadd (rolling 20 mean closes) (map (\<lambda>s. fmul s (Num 2)) (rolling 20 std closes))"

definition bb_lower_series :: "real list \<Rightarrow> fval list" where
  "bb_lower_series closes =
     map2 fsub (rolling 20 mean closes) (map (\<lambda>s. fmul s (Num 2)) (rolling 20 std closes))"

text \<open>\<open>s.iloc[-1] if not s.empty else 0\<close>\<close>

definition last_or_zero :: "fval list \<Rightarrow> error + fval" where
  "last_or_zero s = (if s \<noteq> [] then iloc_neg s 1 else Inr (Num 0))"

text \<open>\<open>(close[-1] - close[-k]) / close[-k] * 100\<close>\<close>

definition price_change :: "real list \<Rightarrow> nat \<Rightarrow> error + fval" where
  "price_change closes k =
     e_bind (iloc_neg closes 1) (\<lambda>c1.
     e_bind (iloc_neg closes k) (\<lambda>ck.
     e_bind (iloc_neg closes k) (\<lambda>ck'.
       Inr (fmul (fdiv (Num (c1 - ck)) (Num ck')) (Num 100)))))"

definition volume_ratio :: "real list \<Rightarrow> error + fval" where
  "volume_ratio vols =
     (let avg_volume = rolling 20 mean vols
      in if avg_volume \<noteq> [] then
           e_bind (iloc_neg vols 1) (\<lambda>v.
           e_bind (iloc_neg avg_volume 1) (\<lambda>a. Inr (fdiv (Num v) a)))
         else Inr (Num 0))"

definition bb_position :: "real list \<Rightarrow> error + fval" where
  "bb_position closes =
     (if bb_upper_series closes \<noteq> [] then
        e_bind (iloc_neg closes 1) (\<lambda>c.
        e_bind (iloc_neg (bb_lower_series closes) 1) (\<lambda>lo.
        e_bind (iloc_neg (bb_upper_series closes) 1) (\<lambda>up.
        e_bind (iloc_neg (bb_lower_series closes) 1) (\<lambda>lo'.
          Inr (fdiv (fsub (Num c) lo) (fsub up lo'))))))
      else Inr (Num 0))"

text \<open>
  The indicator record is a dictionary, kept as an association list in the order of the
  source. \<open>None\<close> is Python's \<open>None\<close>; the empty list is both the empty DataFrame and the
  empty dictionary.
\<close>

type_synonym indicators = "(string \<times> fval) list"

definition calculate_technical_indicators :: "dataframe option \<Rightarrow> error + indicators" where
  "calculate_technical_indicators df =
     (case df of None \<Rightarrow> Inr [] | Some d \<Rightarrow>
      if d = [] then Inr []
      else
        let closes = map Close d; vols = map Volume d in
        e_bind (volume_ratio vols) (\<lambda>vr.
        e_bind (price_change closes 6) (\<lambda>pc5.
        e_bind (price_change closes 21) (\<lambda>pc20.
        e_bind (last_or_zero (rsi_series closes)) (\<lambda>v_rsi.
        e_bind (last_or_zero (map Num (macd_series closes))) (\<lambda>v_macd.
        e_bind (last_or_zero (map Num (signal_series closes))) (\<lambda>v_signal.
        e_bind (last_or_zero (rolling 20 mean closes)) (\<lambda>v_sma20.
        e_bind (last_or_zero (rolling 50 mean closes)) (\<lambda>v_sma50.
        e_bind (bb_position closes) (\<lambda>v_bb.
        e_bind (iloc_neg closes 1) (\<lambda>cur.
          Inr [(''rsi'', v_rsi), (''macd'', v_macd), (''macd_signal'', v_signal),
               (''sma_20'', v_sma20), (''sma_50'', v_sma50), (''bb_position'', v_bb),
               (''volume_ratio'', vr), (''price_change_5d'', pc5),
               (''price_change_20d'', pc20), (''current_price'', Num cur)])))))))))))"

section \<open>Dictionaries of the external services\<close>

text \<open>
  The values that arrive from outside (the metadata of a symbol, the sentiment record, the
  parsed answer of the ranking service) have the shapes of JSON. A dictionary is an
  association list; \<open>map_of\<close> looks a key up.
\<close>

datatype json = JNull | JBool bool | JInt int | JFloat fval | JStr string
  | JArr "json list" | JObj "(string \<times> json) list"

type_synonym dict = "(string \<times> json) list"

text \<open>\<open>d.get(key, default)\<close>\<close>

definition dict_get :: "dict \<Rightarrow> string \<Rightarrow> json \<Rightarrow> json" where
  "dict_get d k dflt = (case map_of d k of Some v \<Rightarrow> v | None \<Rightarrow> dflt)"

section \<open>The analysis aggregator\<close>

text \<open>
  The external services of one run: the two calls to the price library, each of which
  either answers or raises, the sentiment estimator (which catches its own failures and
  always answers), and the date of the run.
\<close>

record services =
  ticker_history :: "string \<Rightarrow> error + dataframe"
  ticker_info :: "string \<Rightarrow> error + dict"
  get_stock_news_sentiment :: "string \<Rightarrow> json \<Rightarrow> dict"
  today :: string

definition get_stock_data :: "services \<Rightarrow> string \<Rightarrow> dataframe option \<times> dict option" where
  "get_stock_data sv tkr =
     (case ticker_history sv tkr of
        Inl e \<Rightarrow> (None, None)
      | Inr hist \<Rightarrow>
          (case ticker_info sv tkr of
             Inl e \<Rightarrow> (None, None)
           | Inr meta \<Rightarrow> (Some hist, Some meta)))"

record analysis =
  symbol :: string
  company_name :: json
  analysis_date :: string
  technical_indicators :: indicators
  sentiment :: dict
  market_cap :: json
  sector :: json

text \<open>\<open>stock_info.get(key, default) if stock_info else default\<close>\<close>

definition info_get :: "dict option \<Rightarrow> string \<Rightarrow> json \<Rightarrow> json" where
  "info_get stock_info k dflt =
     (case stock_info of None \<Rightarrow> dflt
      | Some meta \<Rightarrow> if meta \<noteq> [] then dict_get meta k dflt else dflt)"

definition analyze_stock :: "services \<Rightarrow> string \<Rightarrow> error + analysis option" where
  "analyze_stock sv tkr =
     (case get_stock_data sv tkr of (hist_data, stock_info) \<Rightarrow>
        if hist_data = None \<or> hist_data = Some [] then Inr None
        else
          e_bind (calculate_technical_indicators hist_data) (\<lambda>technical_data.
            let cname = info_get stock_info ''longName'' (JStr tkr);
                news_data = get_stock_news_sentiment sv tkr cname
            in Inr (Some \<lparr>symbol = tkr, company_name = cname, analysis_date = today sv,
                          technical_indicators = technical_data, sentiment = news_data,
                          market_cap = info_get stock_info ''marketCap'' (JInt 0),
                          sector = info_get stock_info ''sector'' (JStr ''Unknown'')\<rparr>)))"

text \<open>
  The loop of \<open>analyze_multiple_stocks\<close>: an exception of \<open>analyze_stock\<close> is caught and
  the loop continues; a result is appended when it is truthy, which an analysis record,
  a dictionary of seven keys, always is, and \<open>None\<close> never.
\<close>

fun analyze_loop :: "services \<Rightarrow> string list \<Rightarrow> analysis list \<Rightarrow> analysis list" where
  "analyze_loop sv [] results = results"
| "analyze_loop sv (tkr # rest) results =
     (case analyze_stock sv tkr of
        Inl e \<Rightarrow> analyze_loop sv rest results
      | Inr None \<Rightarrow> analyze_loop sv rest results
      | Inr (Some r) \<Rightarrow> analyze_loop sv rest (results @ [r]))"

definition analyze_multiple_stocks :: "services \<Rightarrow> string list \<Rightarrow> analysis list" where
  "analyze_multiple_stocks sv symbols = analyze_loop sv symbols []"

section \<open>The result validator\<close>

text \<open>
  \<open>float(v)\<close>. An integer too large for a float raises OverflowError, a string that is
  not a number raises ValueError, \<open>None\<close>, a list and a dictionary raise TypeError. Which
  strings are numbers, and which numbers, is the language's own grammar: it is the
  parameter \<open>sf\<close>.
\<close>

definition py_float :: "(string \<Rightarrow> fval option) \<Rightarrow> json \<Rightarrow> error + fval" where
  "py_float sf v =
     (case v of
        JNull \<Rightarrow> Inl TypeError
      | JBool b \<Rightarrow> Inr (Num (if b then 1 else 0))
      | JInt n \<Rightarrow> if \<bar>n\<bar> < 2 ^ 1024 - 2 ^ 970 then Inr (Num (real_of_int n))
                  else Inl OverflowError
      | JFloat x \<Rightarrow> Inr x
      | JStr s \<Rightarrow> (case sf s of Some x \<Rightarrow> Inr x | None \<Rightarrow> Inl ValueError)
      | JArr xs \<Rightarrow> Inl TypeError
      | JObj d \<Rightarrow> Inl TypeError)"

text \<open>
  The body of the \<open>try\<close> block of the pick loop. Only a dictionary has \<open>get\<close>: any other
  pick raises AttributeError at the first field.
\<close>

definition validate_pick :: "(string \<Rightarrow> fval option) \<Rightarrow> json \<Rightarrow> error + dict" where
  "validate_pick sf pick =
     (case pick of
        JObj p \<Rightarrow>
          e_bind (py_float sf (dict_get p ''target_price'' (JInt 0))) (\<lambda>tp.
          e_bind (py_float sf (dict_get p ''confidence_score'' (JInt 0))) (\<lambda>cs.
            Inr [(''rank'', dict_get p ''rank'' (JInt 0)),
                 (''symbol'', dict_get p ''symbol'' (JStr [])),
                 (''company_name'', dict_get p ''company_name'' (JStr [])),
                 (''recommendation'', dict_get p ''recommendation'' (JStr ''HOLD'')),
                 (''target_price'', JFloat tp),
                 (''confidence_score'', JFloat cs),
                 (''key_reasons'', dict_get p ''key_reasons'' (JArr [])),
                 (''risk_level'', dict_get p ''risk_level'' (JStr ''MEDIUM'')),
                 (''time_horizon'', dict_get p ''time_horizon'' (JStr ''1-3 days'')),
                 (''expected_return'', dict_get p ''expected_return'' (JStr ''0%''))]))
      | _ \<Rightarrow> Inl AttributeError)"

text \<open>
  The pick loop: ValueError and TypeError are caught and the pick is skipped; any other
  exception leaves the function.
\<close>

fun validate_loop ::
  "(string \<Rightarrow> fval option) \<Rightarrow> json list \<Rightarrow> dict list \<Rightarrow> error + dict list" where
  "validate_loop sf [] validated_picks = Inr validated_picks"
| "validate_loop sf (pick # rest) validated_picks =
     (case validate_pick sf pick of
        Inr validated_pick \<Rightarrow> validate_loop sf rest (validated_picks @ [validated_pick])
      | Inl e \<Rightarrow>
          if e = ValueError \<or> e = TypeError then validate_loop sf rest validated_picks
          else Inl e)"

text \<open>
  \<open>v[:10]\<close> as the loop iterates over it: the first ten entries of a list, the first ten
  characters of a string; a number, a truth value and \<open>None\<close> cannot be sliced
  (TypeError), nor can a dictionary (TypeError; KeyError from Python 3.12 on, uncaught
  either way).
\<close>

definition slice10 :: "json \<Rightarrow> error + json list" where
  "slice10 v =
     (case v of
        JArr xs \<Rightarrow> Inr (take 10 xs)
      | JStr s \<Rightarrow> Inr (map (\<lambda>c. JStr [c]) (take 10 s))
      | _ \<Rightarrow> Inl TypeError)"

text \<open>
  \<open>stock_data[0]['analysis_date'] if stock_data else ''\<close>: the name \<open>stock_data\<close> is not
  a parameter or a local of \<open>validate_recommendations\<close> and not a global of its module,
  so that reading it raises NameError.
\<close>

definition analysis_timestamp :: "error + json" where
  "analysis_timestamp = Inl NameError"

text \<open>
  The candidate is what \<open>get_stock_recommendations\<close> returns: \<open>None\<close> or a dictionary.
\<close>

definition validate_recommendations ::
  "(string \<Rightarrow> fval option) \<Rightarrow> dict option \<Rightarrow> error + dict option" where
  "validate_recommendations sf recommendations =
     (case recommendations of
        None \<Rightarrow> Inr None
      | Some r \<Rightarrow>
          (case (if r = [] then None else map_of r ''top_10_picks'') of
             None \<Rightarrow> Inr None
           | Some v \<Rightarrow>
               e_bind (slice10 v) (\<lambda>picks.
               e_bind (validate_loop sf picks []) (\<lambda>validated_picks.
               e_bind analysis_timestamp (\<lambda>ts.
                 Inr (Some [(''top_10_picks'', JArr (map JObj validated_picks)),
                            (''market_overview'', dict_get r ''market_overview'' (JStr [])),
                            (''top_sectors'', dict_get r ''top_sectors'' (JArr [])),
                            (''key_risks'', dict_get r ''key_risks'' (JArr [])),
                            (''analysis_timestamp'', ts)]))))))"

text \<open>
  The picks on which the loop cannot stop early: a dictionary whose \<open>target_price\<close> and
  \<open>confidence_score\<close> are not integers beyond the range of a float.
\<close>

definition float_overflows :: "json \<Rightarrow> bool" where
  "float_overflows v = (case v of JInt n \<Rightarrow> 2 ^ 1024 - 2 ^ 970 \<le> \<bar>n\<bar> | _ \<Rightarrow> False)"

definition pick_in_range :: "json \<Rightarrow> bool" where
  "pick_in_range pick =
     (case pick of
        JObj p \<Rightarrow> (if float_overflows (dict_get p ''target_price'' (JInt 0)) then False
                   else if float_overflows (dict_get p ''confidence_score'' (JInt 0)) then False
                   else True)
      | _ \<Rightarrow> False)"

text \<open>
  The analysis record of a symbol whose analysis succeeded: the symbol failed when its
  analysis raised or returned \<open>None\<close>.
\<close>

definition success_record :: "services \<Rightarrow> string \<Rightarrow> analysis option" where
  "success_record sv tkr = (case analyze_stock sv tkr of Inr (Some r) \<Rightarrow> Some r | _ \<Rightarrow> None)"

section \<open>Sample inputs\<close>

text \<open>
  The series of the end-to-end scenario (every close 100, every volume 1000), a series
  with one rise and one fall, and the services of a run in which two symbols have a
  history, one has an empty history and every other fetch raises.
\<close>

definition flat_bar :: bar where
  "flat_bar = \<lparr>Open = 100, High = 100, Low = 100, Close = 100, Volume = 1000\<rparr>"

definition flat_series :: "nat \<Rightarrow> dataframe" where
  "flat_series n = replicate n flat_bar"

definition swing_series :: dataframe where
  "swing_series = replicate 19 flat_bar @ [flat_bar\<lparr>Close := 110\<rparr>, flat_bar]"

definition demo_services :: services where
  "demo_services =
     \<lparr>ticker_history = (\<lambda>s. if s = ''A.L'' \<or> s = ''C.L'' then Inr (flat_series 25)
                              else if s = ''E.L'' then Inr [] else Inl OtherException),
      ticker_info = (\<lambda>s. Inr [(''sector'', JStr ''Energy'')]),
      get_stock_news_sentiment =
        (\<lambda>s c. [(''sentiment_score'', JFloat (Num (1 / 2))), (''news_count'', JInt 0)]),
      today = ''2024-01-02''\<rparr>"

definition demo_record :: "string \<Rightarrow> analysis" where
  "demo_record s =
     \<lparr>symbol = s, company_name = JStr s, analysis_date = ''2024-01-02'',
      technical_indicators =
        [(''rsi'', NaN), (''macd'', Num 0), (''macd_signal'', Num 0),
         (''sma_20'', Num 100), (''sma_50'', NaN), (''bb_position'', NaN),
         (''volume_ratio'', Num 1), (''price_change_5d'', Num 0),
         (''price_change_20d'', Num 0), (''current_price'', Num 100)],
      sentiment = [(''sentiment_score'', JFloat (Num (1 / 2))), (''news_count'', JInt 0)],
      market_cap = JInt 0, sector = JStr ''Energy''\<rparr>"

text \<open>
  Candidates of the ranking service: fifteen well-formed picks, three picks of which the
  first has the target price \<open>N/A\<close>, and a list of bare symbols.
\<close>

definition sample_pick :: "int \<Rightarrow> json" where
  "sample_pick k =
     JObj [(''rank'', JInt k), (''symbol'', JStr ''BP.L''),
           (''target_price'', JFloat (Num (301 / 2))), (''confidence_score'', JInt 8)]"

definition validated_sample_pick :: "int \<Rightarrow> dict" where
  "validated_sample_pick k =
     [(''rank'', JInt k), (''symbol'', JStr ''BP.L''), (''company_name'', JStr []),
      (''recommendation'', JStr ''HOLD''), (''target_price'', JFloat (Num (301 / 2))),
      (''confidence_score'', JFloat (Num 8)), (''key_reasons'', JArr []),
      (''risk_level'', JStr ''MEDIUM''), (''time_horizon'', JStr ''1-3 days''),
      (''expected_return'', JStr ''0%'')]"

definition fifteen_picks :: dict where
  "fifteen_picks =
     [(''top_10_picks'', JArr (map sample_pick [1, 2, 3, 4, 5, 6, 7, 8, 9, 10, 11, 12, 13, 14, 15])),
      (''market_overview'', JStr ''calm'')]"

definition na_pick :: json where
  "na_pick = JObj [(''rank'', JInt 1), (''symbol'', JStr ''VOD.L''),
                   (''target_price'', JStr ''N/A''), (''confidence_score'', JInt 7)]"

definition na_candidate :: dict where
  "na_candidate = [(''top_10_picks'', JArr [na_pick, sample_pick 2, sample_pick 3])]"

definition symbols_only_candidate :: dict where
  "symbols_only_candidate = [(''top_10_picks'', JArr [JStr ''BP.L'', JStr ''VOD.L''])]"

section \<open>Facts about the series operations\<close>


lemma e_bind_Inr [simp]: "e_bind (Inr v) f = f v"
  by (simp add: e_bind_def)

lemma e_bind_Inl [simp]: "e_bind (Inl e) f = Inl e"
  by (simp add: e_bind_def)

lemma iloc_neg_last: "xs \<noteq> [] \<Longrightarrow> iloc_neg xs (Suc 0) = Inr (last xs)"
  by (cases xs rule: rev_cases) (simp_all add: iloc_neg_def)

lemma iloc_neg_short: "length xs < k \<Longrightarrow> iloc_neg xs k = Inl IndexError"
  by (simp add: iloc_neg_def)

lemma iloc_neg_long: "1 \<le> k \<Longrightarrow> k \<le> length xs \<Longrightarrow> iloc_neg xs k = Inr (xs ! (length xs - k))"
  by (simp add: iloc_neg_def)

lemma length_rolling [simp]: "length (rolling w f xs) = length xs"
  by (simp add: rolling_def)

lemma length_diff [simp]: "length (diff xs) = length xs"
  by (cases xs) (simp_all add: diff_def)

lemma length_where_pos [simp]: "length (where_pos ds) = length ds"
  by (simp add: where_pos_def)

lemma length_where_neg [simp]: "length (where_neg ds) = length ds"
  by (simp add: where_neg_def)

lemma length_ewm_mean [simp]: "length (ewm_mean n xs) = length xs"
  by (simp add: ewm_mean_def Let_def)

lemma length_gain_series [simp]: "length (gain_series cs) = length cs"
  by (simp add: gain_series_def)

lemma length_loss_series [simp]: "length (loss_series cs) = length cs"
  by (simp add: loss_series_def)

lemma length_rsi_series [simp]: "length (rsi_series cs) = length cs"
  by (simp add: rsi_series_def Let_def)

lemma length_macd_series [simp]: "length (macd_series cs) = length cs"
  by (simp add: macd_series_def)

lemma length_signal_series [simp]: "length (signal_series cs) = length cs"
  by (simp add: signal_series_def)

lemma length_bb_upper_series [simp]: "length (bb_upper_series cs) = length cs"
  by (simp add: bb_upper_series_def)

lemma length_bb_lower_series [simp]: "length (bb_lower_series cs) = length cs"
  by (simp add: bb_lower_series_def)

lemma last_rolling:
  assumes "xs \<noteq> []"
  shows "last (rolling w f xs) = (if length xs < w then NaN else f (drop (length xs - w) xs))"
proof -
  obtain n where n: "length xs = Suc n"
    using assms by (cases xs) auto
  have "rolling w f xs \<noteq> []"
    using assms by (simp add: rolling_def)
  then have "last (rolling w f xs) = rolling w f xs ! n"
    using n by (simp add: last_conv_nth)
  also have "\<dots> = (if Suc n < w then NaN else f (take w (drop (Suc n - w) xs)))"
    using n by (simp add: rolling_def del: upt_Suc)
  finally show ?thesis
    using n by auto
qed

lemma last_map2:
  "xs \<noteq> [] \<Longrightarrow> length xs = length ys \<Longrightarrow> last (map2 f xs ys) = f (last xs) (last ys)"
  by (cases xs rule: rev_cases; cases ys rule: rev_cases) simp_all

lemma ne_of_length: "length xs = length ys \<Longrightarrow> ys \<noteq> [] \<Longrightarrow> xs \<noteq> []"
  by auto

lemma series_nonempty:
  assumes "cs \<noteq> []"
  shows "rolling w f cs \<noteq> []" "gain_series cs \<noteq> []" "loss_series cs \<noteq> []"
    "rsi_series cs \<noteq> []" "macd_series cs \<noteq> []" "signal_series cs \<noteq> []"
    "bb_upper_series cs \<noteq> []" "bb_lower_series cs \<noteq> []"
  using assms
  by (rule ne_of_length [rotated], simp)+

lemma last_rsi_series:
  "cs \<noteq> [] \<Longrightarrow> last (rsi_series cs) =
     fsub (Num 100) (fdiv (Num 100) (fadd (Num 1)
       (fdiv (last (gain_series cs)) (last (loss_series cs)))))"
proof -
  assume ne: "cs \<noteq> []"
  then have g: "gain_series cs \<noteq> []" and l: "loss_series cs \<noteq> []"
    by (rule series_nonempty)+
  then have z: "map2 fdiv (gain_series cs) (loss_series cs) \<noteq> []"
    by simp
  have "last (map2 fdiv (gain_series cs) (loss_series cs)) =
      fdiv (last (gain_series cs)) (last (loss_series cs))"
    using g by (intro last_map2) simp_all
  then show ?thesis
    unfolding rsi_series_def Let_def last_map [OF z] by simp
qed

lemma price_change_short:
  "cs \<noteq> [] \<Longrightarrow> length cs < k \<Longrightarrow> price_change cs k = Inl IndexError"
  by (simp add: price_change_def iloc_neg_last iloc_neg_short)

lemma price_change_long:
  "1 \<le> k \<Longrightarrow> k \<le> length cs \<Longrightarrow>
   price_change cs k =
     Inr (fmul (fdiv (Num (last cs - cs ! (length cs - k))) (Num (cs ! (length cs - k))))
       (Num 100))"
proof -
  assume k: "1 \<le> k" "k \<le> length cs"
  then have "cs \<noteq> []"
    by auto
  then have l1: "iloc_neg cs (Suc 0) = Inr (last cs)"
    by (rule iloc_neg_last)
  have lk: "iloc_neg cs k = Inr (cs ! (length cs - k))"
    using k by (rule iloc_neg_long)
  show ?thesis
    by (simp add: price_change_def l1 lk)
qed

lemma volume_ratio_value:
  "vs \<noteq> [] \<Longrightarrow> volume_ratio vs = Inr (fdiv (Num (last vs)) (last (rolling 20 mean vs)))"
  by (simp add: volume_ratio_def Let_def iloc_neg_last series_nonempty)

lemma bb_position_value:
  assumes "cs \<noteq> []"
  shows "bb_position cs =
    Inr (fdiv (fsub (Num (last cs)) (last (bb_lower_series cs)))
      (fsub (last (bb_upper_series cs)) (last (bb_lower_series cs))))"
proof -
  have "bb_upper_series cs \<noteq> []" "bb_lower_series cs \<noteq> []"
    using assms by (rule series_nonempty)+
  then show ?thesis
    using assms by (simp add: bb_position_def iloc_neg_last)
qed

lemma last_or_zero_value: "s \<noteq> [] \<Longrightarrow> last_or_zero s = Inr (last s)"
  by (simp add: last_or_zero_def iloc_neg_last)

lemma calc_short:
  assumes "d \<noteq> []" "length d < 21"
  shows "calculate_technical_indicators (Some d) = Inl IndexError"
proof -
  let ?cs = "map Close d"
  have ne: "?cs \<noteq> []" "map Volume d \<noteq> []"
    using assms by simp_all
  have vr: "volume_ratio (map Volume d) = Inr (fdiv (Num (last (map Volume d))) (last (rolling 20 mean (map Volume d))))"
    using ne by (rule_tac volume_ratio_value)
  have p20: "price_change ?cs 21 = Inl IndexError"
    using ne assms by (intro price_change_short) simp_all
  show ?thesis
  proof (cases "length d < 6")
    case True
    then have "price_change ?cs 6 = Inl IndexError"
      using ne by (intro price_change_short) simp_all
    then show ?thesis
      using assms vr by (simp add: calculate_technical_indicators_def Let_def)
  next
    case False
    then have "price_change ?cs 6 = Inr (fmul (fdiv (Num (last ?cs - ?cs ! (length ?cs - 6))) (Num (?cs ! (length ?cs - 6)))) (Num 100))"
      by (intro price_change_long) simp_all
    then show ?thesis
      using assms vr p20 by (simp add: calculate_technical_indicators_def Let_def)
  qed
qed

lemma calc_long:
  assumes "21 \<le> length d"
  shows "calculate_technical_indicators (Some d) =
    Inr [(''rsi'', last (rsi_series (map Close d))),
         (''macd'', Num (last (macd_series (map Close d)))),
         (''macd_signal'', Num (last (signal_series (map Close d)))),
         (''sma_20'', last (rolling 20 mean (map Close d))),
         (''sma_50'', last (rolling 50 mean (map Close d))),
         (''bb_position'',
            fdiv (fsub (Num (Close (last d))) (last (bb_lower_series (map Close d))))
              (fsub (last (bb_upper_series (map Close d))) (last (bb_lower_series (map Close d))))),
         (''volume_ratio'',
            fdiv (Num (Volume (last d))) (last (rolling 20 mean (map Volume d)))),
         (''price_change_5d'',
            fmul (fdiv (Num (Close (last d) - Close (d ! (length d - 6))))
              (Num (Close (d ! (length d - 6))))) (Num 100)),
         (''price_change_20d'',
            fmul (fdiv (Num (Close (last d) - Close (d ! (length d - 21))))
              (Num (Close (d ! (length d - 21))))) (Num 100)),
         (''current_price'', Num (Close (last d)))]"
proof -
  let ?cs = "map Close d"
  have d: "d \<noteq> []"
    using assms by auto
  have ne: "?cs \<noteq> []" "map Volume d \<noteq> []"
    using d by simp_all
  have s: "rsi_series ?cs \<noteq> []" "map Num (macd_series ?cs) \<noteq> []"
    "map Num (signal_series ?cs) \<noteq> []" "rolling 20 mean ?cs \<noteq> []"
    "rolling 50 mean ?cs \<noteq> []" "macd_series ?cs \<noteq> []" "signal_series ?cs \<noteq> []"
    using ne(1) by (simp_all add: series_nonempty)
  have p5: "price_change ?cs 6 = Inr (fmul (fdiv (Num (last ?cs - ?cs ! (length ?cs - 6))) (Num (?cs ! (length ?cs - 6)))) (Num 100))"
    using assms by (intro price_change_long) simp_all
  have p20: "price_change ?cs 21 = Inr (fmul (fdiv (Num (last ?cs - ?cs ! (length ?cs - 21))) (Num (?cs ! (length ?cs - 21)))) (Num 100))"
    using assms by (intro price_change_long) simp_all
  show ?thesis
    using d assms
    by (simp add: calculate_technical_indicators_def Let_def volume_ratio_value [OF ne(2)]
        p5 p20 last_or_zero_value s bb_position_value [OF ne(1)] iloc_neg_last last_map)
qed

lemma map_Close_flat [simp]: "map Close (flat_series n) = replicate n 100"
  by (simp add: flat_series_def flat_bar_def)

lemma map_Volume_flat [simp]: "map Volume (flat_series n) = replicate n 1000"
  by (simp add: flat_series_def flat_bar_def)

lemma diff_replicate: "diff (replicate (Suc n) c) = None # replicate n (Some 0)"
proof -
  have "map2 (\<lambda>a b. Some (b - a)) (replicate (Suc n) c) (replicate n c) = replicate n (Some 0)"
    unfolding zip_replicate by simp
  then show ?thesis
    by (simp add: diff_def)
qed

lemma where_flat:
  "where_pos (None # replicate n (Some 0)) = replicate (Suc n) 0"
  "map uminus (where_neg (None # replicate n (Some 0))) = replicate (Suc n) 0"
  by (simp_all add: where_pos_def where_neg_def)

lemma mean_replicate: "0 < n \<Longrightarrow> mean (replicate n c) = Num c"
  by (simp add: mean_def sum_list_replicate)

lemma std_replicate: "2 \<le> n \<Longrightarrow> std (replicate n c) = Num 0"
  by (simp add: std_def Let_def sum_list_replicate)

lemma last_rolling_replicate:
  "0 < n \<Longrightarrow> last (rolling w f (replicate n c)) = (if n < w then NaN else f (replicate w c))"
  by (simp add: last_rolling)

lemma ewm_weights_pos: "0 < (\<Sum>i\<leftarrow>[0..<Suc t]. ((1::real) - 2 / (real k + 1)) ^ i)" if "1 \<le> k"
proof -
  have b: "0 \<le> (1::real) - 2 / (real k + 1)"
    using that by (simp add: field_simps)
  have "(\<Sum>i\<leftarrow>[0..<Suc t]. ((1::real) - 2 / (real k + 1)) ^ i) =
      1 + (\<Sum>i\<leftarrow>[1..<Suc t]. ((1::real) - 2 / (real k + 1)) ^ i)"
    by (simp add: upt_rec [of 0] del: upt_Suc)
  moreover have "0 \<le> (\<Sum>i\<leftarrow>[1..<Suc t]. ((1::real) - 2 / (real k + 1)) ^ i)"
    using b by (intro sum_list_nonneg) auto
  ultimately show ?thesis
    by linarith
qed

lemma ewm_mean_replicate:
  assumes "1 \<le> k"
  shows "ewm_mean k (replicate m c) = replicate m c"
proof (rule nth_equalityI)
  show "length (ewm_mean k (replicate m c)) = length (replicate m c)"
    by simp
next
  fix t
  assume "t < length (ewm_mean k (replicate m c))"
  then have t: "t < m"
    by simp
  let ?b = "(1::real) - 2 / (real k + 1)"
  have "(\<Sum>i\<leftarrow>[0..<Suc t]. ?b ^ i * replicate m c ! (t - i)) = (\<Sum>i\<leftarrow>[0..<Suc t]. ?b ^ i * c)"
    using t by (intro arg_cong [where f = sum_list] map_cong) auto
  also have "\<dots> = (\<Sum>i\<leftarrow>[0..<Suc t]. ?b ^ i) * c"
    by (simp add: sum_list_mult_const del: upt_Suc)
  finally have "(\<Sum>i\<leftarrow>[0..<Suc t]. ?b ^ i * replicate m c ! (t - i)) / (\<Sum>i\<leftarrow>[0..<Suc t]. ?b ^ i) = c"
    using ewm_weights_pos [OF assms, of t] by simp
  then show "ewm_mean k (replicate m c) ! t = replicate m c ! t"
    using t by (simp add: ewm_mean_def Let_def del: upt_Suc)
qed

lemma macd_replicate: "macd_series (replicate m c) = replicate m 0"
  by (simp add: macd_series_def ewm_mean_replicate zip_replicate)

lemma signal_replicate: "signal_series (replicate m c) = replicate m 0"
  by (simp add: signal_series_def macd_replicate ewm_mean_replicate)

lemma flat_rsi:
  assumes "14 \<le> n"
  shows "last (rsi_series (replicate n c)) = NaN"
proof -
  obtain m where r: "n = Suc m"
    using assms by (cases n) auto
  have "last (gain_series (replicate n c)) = Num 0"
    unfolding gain_series_def r diff_replicate where_flat
    using assms r by (simp add: last_rolling_replicate mean_replicate del: replicate_Suc)
  moreover have "last (loss_series (replicate n c)) = Num 0"
    unfolding loss_series_def r diff_replicate where_flat
    using assms r by (simp add: last_rolling_replicate mean_replicate del: replicate_Suc)
  moreover have "replicate n c \<noteq> []"
    using r by simp
  ultimately show ?thesis
    by (simp add: last_rsi_series fsub_def)
qed

lemma flat_bands:
  assumes "20 \<le> n"
  shows "last (bb_upper_series (replicate n c)) = Num c"
    and "last (bb_lower_series (replicate n c)) = Num c"
proof -
  have ne: "replicate n c \<noteq> []"
    using assms by auto
  have m: "last (rolling 20 mean (replicate n c)) = Num c"
    using assms by (simp add: last_rolling_replicate mean_replicate)
  have "last (rolling 20 std (replicate n c)) = Num 0"
    using assms by (simp add: last_rolling_replicate std_replicate)
  then have s: "last (map (\<lambda>s. fmul s (Num 2)) (rolling 20 std (replicate n c))) = Num 0"
    using ne by (simp add: last_map series_nonempty)
  show "last (bb_upper_series (replicate n c)) = Num c"
    unfolding bb_upper_series_def using ne
    by (subst last_map2) (simp_all add: m s series_nonempty)
  show "last (bb_lower_series (replicate n c)) = Num c"
    unfolding bb_lower_series_def using ne
    by (subst last_map2) (simp_all add: m s series_nonempty fsub_def)
qed

lemma calc_flat:
  assumes "21 \<le> n" "n < 50"
  shows "calculate_technical_indicators (Some (flat_series n)) =
     Inr [(''rsi'', NaN), (''macd'', Num 0), (''macd_signal'', Num 0),
          (''sma_20'', Num 100), (''sma_50'', NaN), (''bb_position'', NaN),
          (''volume_ratio'', Num 1), (''price_change_5d'', Num 0),
          (''price_change_20d'', Num 0), (''current_price'', Num 100)]"
proof -
  have l: "21 \<le> length (flat_series n)"
    using assms by (simp add: flat_series_def)
  have b: "last (flat_series n) = flat_bar" "flat_series n ! (n - 6) = flat_bar"
    "flat_series n ! (n - 21) = flat_bar"
    using assms by (simp_all add: flat_series_def)
  have n: "length (flat_series n) = n" "14 \<le> n" "20 \<le> n" "0 < n"
    using assms by (simp_all add: flat_series_def)
  show ?thesis
    unfolding calc_long [OF l] map_Close_flat map_Volume_flat flat_rsi [OF n(2)]
      flat_bands [OF n(3)] macd_replicate signal_replicate n(1) b
    using assms
    by (simp add: flat_bar_def last_rolling_replicate mean_replicate fsub_def)
qed

section \<open>The indicator engine on short and flat series\<close>

text \<open>
  Claim C1 says that the engine returns an indicator record for every series of at least
  one bar and never raises. The code does not: the two momentum lines read the sixth and
  the twenty-first close from the end without a guard, so that a series of one bar, and
  one of twenty bars, raise IndexError (as does every non-empty series of fewer than 21
  bars, by \<open>calc_short\<close>).
\<close>

theorem engine_raises_on_short_series:
  "calculate_technical_indicators (Some (flat_series 1)) = Inl IndexError \<and>
   calculate_technical_indicators (Some (flat_series 20)) = Inl IndexError"
  by (simp add: calc_short flat_series_def)

text \<open>
  Claim C2 says that an indicator whose window is longer than the series is exactly 0,
  not an error and not NaN. The code does not: on 30 bars the value of \<open>sma_50\<close> is
  NaN, because the rolling series is never empty and the fallback to 0 is never taken;
  on 10 bars the engine raises IndexError and returns no value at all.
\<close>

theorem short_window_is_not_zero:
  "(\<exists>r. calculate_technical_indicators (Some (flat_series 30)) = Inr r \<and>
        map_of r ''sma_50'' = Some NaN) \<and>
   calculate_technical_indicators (Some (flat_series 10)) = Inl IndexError"
proof -
  have "calculate_technical_indicators (Some (flat_series 10)) = Inl IndexError"
    by (simp add: calc_short flat_series_def)
  then show ?thesis
    by (simp add: calc_flat)
qed

text \<open>
  Claim C3 is the scenario of 25 bars with every close 100 and every volume 1000. The
  code returns the record below: \<open>sma_20\<close>, \<open>volume_ratio\<close>, the two price changes and
  \<open>current_price\<close> are as the claim says, but \<open>rsi\<close> and \<open>sma_50\<close> are NaN where the
  claim says 0.
\<close>

theorem flat_25_bar_scenario:
  "calculate_technical_indicators (Some (replicate 25
      \<lparr>Open = 100, High = 100, Low = 100, Close = 100, Volume = 1000\<rparr>)) =
     Inr [(''rsi'', NaN), (''macd'', Num 0), (''macd_signal'', Num 0),
          (''sma_20'', Num 100), (''sma_50'', NaN), (''bb_position'', NaN),
          (''volume_ratio'', Num 1), (''price_change_5d'', Num 0),
          (''price_change_20d'', Num 0), (''current_price'', Num 100)]"
  using calc_flat [of 25] by (simp add: flat_series_def flat_bar_def)

section \<open>The range of the RSI\<close>

lemma where_pos_nonneg: "x \<in> set (where_pos ds) \<Longrightarrow> 0 \<le> x"
  by (auto simp: where_pos_def split: option.splits)

lemma last_gain_nonneg:
  assumes "14 \<le> length cs"
  shows "\<exists>g. last (gain_series cs) = Num g \<and> 0 \<le> g"
proof -
  let ?ys = "drop (length cs - 14) (where_pos (diff cs))"
  have "length (where_pos (diff cs)) = length cs"
    by simp
  then have ne: "where_pos (diff cs) \<noteq> []" "?ys \<noteq> []"
    using assms by (auto simp del: length_where_pos)
  have "last (gain_series cs) = mean ?ys"
    using assms ne(1) by (simp add: gain_series_def last_rolling)
  moreover have "0 \<le> sum_list ?ys"
    by (intro sum_list_nonneg) (auto dest: in_set_dropD where_pos_nonneg)
  ultimately show ?thesis
    using ne(2) by (simp add: mean_def)
qed

lemma rsi_formula_bounds:
  fixes g l :: real
  assumes "0 \<le> g" "0 < l"
  shows "0 \<le> 100 - 100 / (1 + g / l)" "100 - 100 / (1 + g / l) \<le> 100"
proof -
  have q: "0 \<le> g / l"
    using assms by simp
  then have "100 / (1 + g / l) \<le> 100 / 1"
    by (intro divide_left_mono) simp_all
  moreover have "0 \<le> 100 / (1 + g / l)"
    using q by simp
  ultimately have "100 / (1 + g / l) \<le> 100" "0 \<le> 100 / (1 + g / l)"
    by simp_all
  then show "0 \<le> 100 - 100 / (1 + g / l)" "100 - 100 / (1 + g / l) \<le> 100"
    by simp_all
qed

text \<open>
  Claim C4: for every series with at least 14 bars whose last 14-period average loss is
  a number greater than 0, the last value of the RSI series is a number between 0 and
  100; the engine either raises IndexError (the series has fewer than 21 bars) or returns
  a record whose \<open>rsi\<close> is that number.
\<close>

theorem rsi_in_range:
  assumes "14 \<le> length d" and "last (loss_series (map Close d)) = Num l" and "0 < l"
  shows "\<exists>r. 0 \<le> r \<and> r \<le> 100 \<and> last (rsi_series (map Close d)) = Num r \<and>
    (length d < 21 \<and> calculate_technical_indicators (Some d) = Inl IndexError \<or>
     (\<exists>ind. calculate_technical_indicators (Some d) = Inr ind \<and>
        map_of ind ''rsi'' = Some (Num r)))"
proof -
  let ?cs = "map Close d"
  have ne: "d \<noteq> []" "?cs \<noteq> []"
    using assms(1) by auto
  obtain g where g: "last (gain_series ?cs) = Num g" "0 \<le> g"
    using last_gain_nonneg [of ?cs] assms(1) by auto
  let ?r = "100 - 100 / (1 + g / l)"
  have nz: "l \<noteq> 0" "1 + g / l \<noteq> 0"
    using assms(3) g(2) by (simp_all add: add_nonneg_eq_0_iff)
  have r: "last (rsi_series ?cs) = Num ?r"
    using nz by (simp add: last_rsi_series [OF ne(2)] g(1) assms(2) fsub_def)
  have "length d < 21 \<and> calculate_technical_indicators (Some d) = Inl IndexError \<or>
     (\<exists>ind. calculate_technical_indicators (Some d) = Inr ind \<and>
        map_of ind ''rsi'' = Some (Num ?r))"
  proof (cases "length d < 21")
    case True
    then show ?thesis
      using calc_short [OF ne(1)] by simp
  next
    case False
    then have "21 \<le> length d"
      by simp
    then show ?thesis
      by (simp add: calc_long r)
  qed
  then show ?thesis
    using r rsi_formula_bounds [OF g(2) assms(3)] by blast
qed

lemma swing_closes: "map Close swing_series = replicate 19 100 @ [110, 100]"
  by (simp add: swing_series_def flat_bar_def)

lemma swing_loss: "last (loss_series (map Close swing_series)) = Num (5 / 7)"
  unfolding swing_closes loss_series_def
  by (simp add: last_rolling diff_def where_neg_def mean_def eval_nat_numeral)

theorem rsi_in_range_witness:
  "14 \<le> length swing_series \<and>
   last (loss_series (map Close swing_series)) = Num (5 / 7) \<and> (0::real) < 5 / 7 \<and>
   (\<exists>r. 0 \<le> r \<and> r \<le> 100 \<and> last (rsi_series (map Close swing_series)) = Num r \<and>
      (\<exists>ind. calculate_technical_indicators (Some swing_series) = Inr ind \<and>
         map_of ind ''rsi'' = Some (Num r)))"
proof -
  have h: "14 \<le> length swing_series" "(0::real) < 5 / 7"
    by (simp_all add: swing_series_def)
  have "\<not> length swing_series < 21"
    by (simp add: swing_series_def)
  then show ?thesis
    using rsi_in_range [OF h(1) swing_loss h(2)] h swing_loss by auto
qed

section \<open>Facts about the aggregator\<close>

lemma analyze_loop_eq:
  "analyze_loop sv symbols results = results @ List.map_filter (success_record sv) symbols"
proof (induction symbols arbitrary: results)
  case Nil
  then show ?case
    by (simp add: map_filter_simps)
next
  case (Cons s symbols)
  show ?case
  proof (cases "analyze_stock sv s")
    case (Inl e)
    then show ?thesis
      by (simp add: Cons.IH map_filter_simps success_record_def)
  next
    case (Inr res)
    then show ?thesis
      by (cases res) (simp_all add: Cons.IH map_filter_simps success_record_def)
  qed
qed

lemma map_filter_Nil_iff: "List.map_filter f xs = [] \<longleftrightarrow> (\<forall>x\<in>set xs. f x = None)"
  by (induction xs) (auto simp: map_filter_simps split: option.splits)

lemma fetch_failed_None:
  assumes "fst (get_stock_data sv tkr) = None \<or> fst (get_stock_data sv tkr) = Some []"
  shows "analyze_stock sv tkr = Inr None"
  using assms by (auto simp: analyze_stock_def split: prod.splits)

lemma demo_fetch:
  "get_stock_data demo_services ''A.L'' = (Some (flat_series 25), Some [(''sector'', JStr ''Energy'')])"
  "get_stock_data demo_services ''C.L'' = (Some (flat_series 25), Some [(''sector'', JStr ''Energy'')])"
  "get_stock_data demo_services ''E.L'' = (Some [], Some [(''sector'', JStr ''Energy'')])"
  "get_stock_data demo_services ''B.L'' = (None, None)"
  by (simp_all add: get_stock_data_def demo_services_def)

lemma flat_25_nonempty: "flat_series 25 \<noteq> []"
  by (simp add: flat_series_def)

lemma demo_analyze:
  "analyze_stock demo_services ''A.L'' = Inr (Some (demo_record ''A.L''))"
  "analyze_stock demo_services ''C.L'' = Inr (Some (demo_record ''C.L''))"
  "analyze_stock demo_services ''E.L'' = Inr None"
  "analyze_stock demo_services ''B.L'' = Inr None"
  by (simp_all add: analyze_stock_def demo_fetch calc_flat flat_25_nonempty info_get_def
      dict_get_def demo_record_def Let_def)
     (simp_all add: demo_services_def)

text \<open>
  Claim C5: the aggregator returns the analysis records of exactly the symbols that
  succeeded, in input order; its output is empty if and only if every symbol failed; and
  over the symbols a, b, c where a and c succeed and the fetch of b gives no history, it
  returns the record of a followed by the record of c.
\<close>

theorem aggregator_keeps_successes_in_order:
  "analyze_multiple_stocks sv symbols = List.map_filter (success_record sv) symbols \<and>
   (analyze_multiple_stocks sv symbols = [] \<longleftrightarrow>
      (\<forall>s\<in>set symbols. success_record sv s = None)) \<and>
   (analyze_stock sv a = Inr (Some ra) \<and>
    (fst (get_stock_data sv b) = None \<or> fst (get_stock_data sv b) = Some []) \<and>
    analyze_stock sv c = Inr (Some rc) \<longrightarrow>
      analyze_multiple_stocks sv [a, b, c] = [ra, rc])"
proof (intro conjI impI)
  show e: "analyze_multiple_stocks sv symbols = List.map_filter (success_record sv) symbols"
    by (simp add: analyze_multiple_stocks_def analyze_loop_eq)
  show "analyze_multiple_stocks sv symbols = [] \<longleftrightarrow>
      (\<forall>s\<in>set symbols. success_record sv s = None)"
    unfolding e by (rule map_filter_Nil_iff)
next
  assume h: "analyze_stock sv a = Inr (Some ra) \<and>
    (fst (get_stock_data sv b) = None \<or> fst (get_stock_data sv b) = Some []) \<and>
    analyze_stock sv c = Inr (Some rc)"
  then have "analyze_stock sv b = Inr None"
    by (intro fetch_failed_None) simp
  then show "analyze_multiple_stocks sv [a, b, c] = [ra, rc]"
    using h by (simp add: analyze_multiple_stocks_def)
qed

theorem aggregator_keeps_successes_in_order_witness:
  "analyze_stock demo_services ''A.L'' = Inr (Some (demo_record ''A.L'')) \<and>
   fst (get_stock_data demo_services ''B.L'') = None \<and>
   analyze_stock demo_services ''C.L'' = Inr (Some (demo_record ''C.L'')) \<and>
   analyze_multiple_stocks demo_services [''A.L'', ''B.L'', ''C.L''] =
     [demo_record ''A.L'', demo_record ''C.L''] \<and>
   success_record demo_services ''B.L'' = None \<and>
   analyze_multiple_stocks demo_services [''B.L''] = []"
proof -
  have s: "success_record demo_services ''B.L'' = None"
    by (simp add: success_record_def demo_analyze)
  have "analyze_multiple_stocks demo_services [''A.L'', ''B.L'', ''C.L''] =
     [demo_record ''A.L'', demo_record ''C.L'']"
    using aggregator_keeps_successes_in_order [of demo_services "[]" "''A.L''"
        "demo_record ''A.L''" "''B.L''" "''C.L''" "demo_record ''C.L''"]
    by (simp add: demo_analyze demo_fetch)
  moreover have "analyze_multiple_stocks demo_services [''B.L''] = []"
    using aggregator_keeps_successes_in_order [of demo_services "[''B.L'']"] s
    by simp
  ultimately show ?thesis
    by (simp add: demo_analyze demo_fetch s)
qed

lemma analyze_stock_Some:
  assumes "analyze_stock sv tkr = Inr (Some r)"
  shows "symbol r = tkr \<and>
    (\<exists>d. fst (get_stock_data sv tkr) = Some d \<and> d \<noteq> [] \<and>
       calculate_technical_indicators (Some d) = Inr (technical_indicators r))"
proof -
  obtain hist_data stock_info where g: "get_stock_data sv tkr = (hist_data, stock_info)"
    by (cases "get_stock_data sv tkr")
  have n: "hist_data \<noteq> None" "hist_data \<noteq> Some []"
    using assms g by (auto simp: analyze_stock_def split: if_splits)
  then obtain d where d: "hist_data = Some d" "d \<noteq> []"
    by auto
  show ?thesis
  proof (cases "calculate_technical_indicators (Some d)")
    case (Inl e)
    then show ?thesis
      using assms g d by (simp add: analyze_stock_def)
  next
    case (Inr tech)
    then show ?thesis
      using assms g d by (auto simp: analyze_stock_def Let_def)
  qed
qed

lemma calc_Inr_keys:
  assumes "d \<noteq> []" "calculate_technical_indicators (Some d) = Inr tech"
  shows "map fst tech = [''rsi'', ''macd'', ''macd_signal'', ''sma_20'', ''sma_50'',
    ''bb_position'', ''volume_ratio'', ''price_change_5d'', ''price_change_20d'',
    ''current_price'']"
proof (cases "length d < 21")
  case True
  then show ?thesis
    using assms calc_short [OF assms(1)] by simp
next
  case False
  then have "21 \<le> length d"
    by simp
  then show ?thesis
    using assms(2) by (auto simp: calc_long)
qed

text \<open>
  Claim C8: every record in the output of the aggregator has a non-empty indicator record
  (it has all ten keys) and belongs to an input symbol whose fetched history was present
  and non-empty: a symbol whose fetch gave nothing has no record in the output.
\<close>

theorem handed_records_have_indicators:
  "\<forall>r\<in>set (analyze_multiple_stocks sv symbols).
     technical_indicators r \<noteq> [] \<and>
     map fst (technical_indicators r) =
       [''rsi'', ''macd'', ''macd_signal'', ''sma_20'', ''sma_50'', ''bb_position'',
        ''volume_ratio'', ''price_change_5d'', ''price_change_20d'', ''current_price''] \<and>
     symbol r \<in> set symbols \<and>
     (\<exists>d. fst (get_stock_data sv (symbol r)) = Some d \<and> d \<noteq> [])"
proof
  fix r
  assume "r \<in> set (analyze_multiple_stocks sv symbols)"
  then have "r \<in> set (List.map_filter (success_record sv) symbols)"
    by (simp add: analyze_multiple_stocks_def analyze_loop_eq)
  then obtain s where s: "s \<in> set symbols" "success_record sv s = Some r"
    by (auto simp: map_filter_def)
  then have a: "analyze_stock sv s = Inr (Some r)"
    by (auto simp: success_record_def split: sum.splits option.splits)
  from analyze_stock_Some [OF a] obtain d where d: "symbol r = s"
    "fst (get_stock_data sv s) = Some d" "d \<noteq> []"
    "calculate_technical_indicators (Some d) = Inr (technical_indicators r)"
    by auto
  have k: "map fst (technical_indicators r) =
       [''rsi'', ''macd'', ''macd_signal'', ''sma_20'', ''sma_50'', ''bb_position'',
        ''volume_ratio'', ''price_change_5d'', ''price_change_20d'', ''current_price'']"
    using calc_Inr_keys [OF d(3) d(4)] .
  then have "technical_indicators r \<noteq> []"
    by auto
  then show "technical_indicators r \<noteq> [] \<and>
     map fst (technical_indicators r) =
       [''rsi'', ''macd'', ''macd_signal'', ''sma_20'', ''sma_50'', ''bb_position'',
        ''volume_ratio'', ''price_change_5d'', ''price_change_20d'', ''current_price''] \<and>
     symbol r \<in> set symbols \<and>
     (\<exists>d. fst (get_stock_data sv (symbol r)) = Some d \<and> d \<noteq> [])"
    using k s(1) d by auto
qed

theorem handed_records_have_indicators_witness:
  "analyze_multiple_stocks demo_services [''E.L'', ''A.L'', ''B.L''] = [demo_record ''A.L''] \<and>
   technical_indicators (demo_record ''A.L'') \<noteq> [] \<and>
   length (technical_indicators (demo_record ''A.L'')) = 10 \<and>
   symbol (demo_record ''A.L'') = ''A.L'' \<and>
   fst (get_stock_data demo_services ''A.L'') = Some (flat_series 25)"
proof -
  have r: "analyze_multiple_stocks demo_services [''E.L'', ''A.L'', ''B.L''] =
      [demo_record ''A.L'']"
    by (simp add: analyze_multiple_stocks_def demo_analyze)
  have "map fst (technical_indicators (demo_record ''A.L'')) =
       [''rsi'', ''macd'', ''macd_signal'', ''sma_20'', ''sma_50'', ''bb_position'',
        ''volume_ratio'', ''price_change_5d'', ''price_change_20d'', ''current_price'']"
    using handed_records_have_indicators [of demo_services "[''E.L'', ''A.L'', ''B.L'']"]
    unfolding r by simp
  then have "length (map fst (technical_indicators (demo_record ''A.L''))) = 10"
    by simp
  then show ?thesis
    using r by (auto simp: demo_fetch demo_record_def)
qed

text \<open>
  Claim C10: the engine returns the empty dictionary for \<open>None\<close> and for the empty
  series, and \<open>analyze_stock\<close> returns \<open>None\<close> for a symbol whose fetched history is
  \<open>None\<close> or empty, so that the loop of the aggregator passes over the symbol.
\<close>

theorem missing_history_is_skipped:
  "calculate_technical_indicators None = Inr [] \<and>
   calculate_technical_indicators (Some []) = Inr [] \<and>
   (fst (get_stock_data sv tkr) = None \<or> fst (get_stock_data sv tkr) = Some [] \<longrightarrow>
      analyze_stock sv tkr = Inr None \<and>
      analyze_loop sv (tkr # rest) results = analyze_loop sv rest results)"
  by (simp add: calculate_technical_indicators_def fetch_failed_None)

theorem missing_history_is_skipped_witness:
  "fst (get_stock_data demo_services ''E.L'') = Some [] \<and>
   analyze_stock demo_services ''E.L'' = Inr None \<and>
   fst (get_stock_data demo_services ''B.L'') = None \<and>
   analyze_stock demo_services ''B.L'' = Inr None \<and>
   analyze_multiple_stocks demo_services [''E.L'', ''B.L''] = []"
proof -
  have e: "fst (get_stock_data demo_services ''E.L'') = Some []"
    and b: "fst (get_stock_data demo_services ''B.L'') = None"
    by (simp_all add: demo_fetch)
  have "analyze_stock demo_services ''E.L'' = Inr None \<and>
      analyze_loop demo_services [''E.L'', ''B.L''] [] = analyze_loop demo_services [''B.L''] []"
    using missing_history_is_skipped [of demo_services "''E.L''" "[''B.L'']" "[]"] e
    by simp
  moreover have "analyze_stock demo_services ''B.L'' = Inr None \<and>
      analyze_loop demo_services [''B.L''] [] = analyze_loop demo_services [] []"
    using missing_history_is_skipped [of demo_services "''B.L''" "[]" "[]"] b
    by simp
  ultimately show ?thesis
    using e b by (simp add: analyze_multiple_stocks_def)
qed

section \<open>Facts about the validator\<close>

lemma validate_sample_pick: "validate_pick sf (sample_pick k) = Inr (validated_sample_pick k)"
  by (simp add: validate_pick_def sample_pick_def validated_sample_pick_def dict_get_def
      py_float_def)

lemma validate_loop_samples:
  "validate_loop sf (map sample_pick ks) acc = Inr (acc @ map validated_sample_pick ks)"
  by (induction ks arbitrary: acc) (simp_all add: validate_sample_pick)

lemma validate_na_pick:
  "validate_pick sf na_pick =
     (case sf ''N/A'' of None \<Rightarrow> Inl ValueError
      | Some x \<Rightarrow> Inr [(''rank'', JInt 1), (''symbol'', JStr ''VOD.L''),
          (''company_name'', JStr []), (''recommendation'', JStr ''HOLD''),
          (''target_price'', JFloat x), (''confidence_score'', JFloat (Num 7)),
          (''key_reasons'', JArr []), (''risk_level'', JStr ''MEDIUM''),
          (''time_horizon'', JStr ''1-3 days''), (''expected_return'', JStr ''0%'')])"
  by (simp add: validate_pick_def na_pick_def dict_get_def py_float_def split: option.splits)

lemma validate_reaches_return:
  assumes "map_of r ''top_10_picks'' = Some v" "slice10 v = Inr picks"
    "validate_loop sf picks [] = Inr vs"
  shows "validate_recommendations sf (Some r) = Inl NameError"
proof -
  have "r \<noteq> []"
    using assms(1) by auto
  then show ?thesis
    using assms by (simp add: validate_recommendations_def analysis_timestamp_def)
qed

lemma validate_never_returns:
  assumes "map_of r ''top_10_picks'' = Some v"
  shows "\<exists>e. validate_recommendations sf (Some r) = Inl e"
proof -
  have r: "r \<noteq> []"
    using assms by auto
  show ?thesis
  proof (cases "slice10 v")
    case (Inl e)
    then show ?thesis
      using assms r by (simp add: validate_recommendations_def)
  next
    case (Inr picks)
    then show ?thesis
      using assms r
      by (cases "validate_loop sf picks []")
         (simp_all add: validate_recommendations_def analysis_timestamp_def)
  qed
qed

lemma validate_None_iff:
  "validate_recommendations sf c = Inr None \<longleftrightarrow>
     (c = None \<or> (\<exists>r. c = Some r \<and> map_of r ''top_10_picks'' = None))"
proof (cases c)
  case None
  then show ?thesis
    by (simp add: validate_recommendations_def)
next
  case (Some r)
  show ?thesis
  proof (cases "map_of r ''top_10_picks''")
    case None
    then show ?thesis
      using Some by (simp add: validate_recommendations_def)
  next
    case v: (Some v)
    from validate_never_returns [OF v, of sf] show ?thesis
      using Some v by auto
  qed
qed

lemma py_float_error:
  "py_float sf v = Inl e \<Longrightarrow>
     e = TypeError \<or> e = ValueError \<or> (e = OverflowError \<and> float_overflows v)"
  by (cases v) (auto simp: py_float_def float_overflows_def split: if_splits option.splits)

lemma validate_pick_in_range:
  assumes "pick_in_range pick"
  shows "(\<exists>vp. validate_pick sf pick = Inr vp) \<or> validate_pick sf pick = Inl ValueError \<or>
    validate_pick sf pick = Inl TypeError"
proof -
  obtain p where p: "pick = JObj p"
    using assms by (cases pick) (simp_all add: pick_in_range_def)
  have t: "\<not> float_overflows (dict_get p ''target_price'' (JInt 0))"
    and c: "\<not> float_overflows (dict_get p ''confidence_score'' (JInt 0))"
    using assms p by (auto simp: pick_in_range_def split: if_splits)
  show ?thesis
  proof (cases "py_float sf (dict_get p ''target_price'' (JInt 0))")
    case (Inl e)
    then show ?thesis
      using py_float_error [OF Inl] t p by (auto simp: validate_pick_def)
  next
    case tp: (Inr x)
    show ?thesis
    proof (cases "py_float sf (dict_get p ''confidence_score'' (JInt 0))")
      case (Inl e)
      then show ?thesis
        using py_float_error [OF Inl] c p tp by (auto simp: validate_pick_def)
    next
      case (Inr y)
      then show ?thesis
        using p tp by (simp add: validate_pick_def)
    qed
  qed
qed

lemma validate_loop_in_range:
  "list_all pick_in_range picks \<Longrightarrow> \<exists>vs. validate_loop sf picks acc = Inr vs"
proof (induction picks arbitrary: acc)
  case Nil
  then show ?case by simp
next
  case (Cons pick picks)
  then have "pick_in_range pick" and rest: "list_all pick_in_range picks"
    by simp_all
  from validate_pick_in_range [OF this(1), of sf] show ?case
    using Cons.IH [OF rest] by auto
qed

text \<open>
  Claim C6 says that the validator, given more than ten picks, returns a set with exactly
  the first ten in input order. The code does not return: for fifteen well-formed picks
  the loop collects the first ten in input order, and building the return value then
  raises NameError.
\<close>

theorem fifteen_picks_raise:
  "validate_loop sf (take 10 (map sample_pick [1, 2, 3, 4, 5, 6, 7, 8, 9, 10, 11, 12, 13, 14, 15])) [] =
     Inr (map validated_sample_pick [1, 2, 3, 4, 5, 6, 7, 8, 9, 10]) \<and>
   validate_recommendations sf (Some fifteen_picks) = Inl NameError"
proof -
  have l: "validate_loop sf (take 10 (map sample_pick [1, 2, 3, 4, 5, 6, 7, 8, 9, 10, 11, 12, 13, 14, 15])) [] =
     Inr (map validated_sample_pick [1, 2, 3, 4, 5, 6, 7, 8, 9, 10])"
    using validate_loop_samples [of sf "[1, 2, 3, 4, 5, 6, 7, 8, 9, 10]" "[]"] by simp
  have m: "map_of fifteen_picks ''top_10_picks'' =
      Some (JArr (map sample_pick [1, 2, 3, 4, 5, 6, 7, 8, 9, 10, 11, 12, 13, 14, 15]))"
    by (simp add: fifteen_picks_def)
  have s: "slice10 (JArr (map sample_pick [1, 2, 3, 4, 5, 6, 7, 8, 9, 10, 11, 12, 13, 14, 15])) =
      Inr (take 10 (map sample_pick [1, 2, 3, 4, 5, 6, 7, 8, 9, 10, 11, 12, 13, 14, 15]))"
    by (simp add: slice10_def)
  show ?thesis
    using validate_reaches_return [OF m s l] l by simp
qed

text \<open>
  Claim C7 says that the validator drops a pick whose target price cannot be coerced and
  keeps the others. The code does not return: for the three picks of
  \<open>na_candidate\<close> the coercion of the first raises ValueError when \<open>N/A\<close> is not a
  number, the loop then drops that pick and keeps the other two, and building the return
  value raises NameError.
\<close>

theorem na_pick_raises:
  "(sf ''N/A'' = None \<and> validate_pick sf na_pick = Inl ValueError \<or>
    (\<exists>x vp. sf ''N/A'' = Some x \<and> validate_pick sf na_pick = Inr vp)) \<and>
   validate_loop sf [na_pick, sample_pick 2, sample_pick 3] [] =
     (case validate_pick sf na_pick of
        Inl e \<Rightarrow> Inr [validated_sample_pick 2, validated_sample_pick 3]
      | Inr vp \<Rightarrow> Inr [vp, validated_sample_pick 2, validated_sample_pick 3]) \<and>
   validate_recommendations sf (Some na_candidate) = Inl NameError"
proof -
  have c: "sf ''N/A'' = None \<and> validate_pick sf na_pick = Inl ValueError \<or>
    (\<exists>x vp. sf ''N/A'' = Some x \<and> validate_pick sf na_pick = Inr vp)"
    by (cases "sf ''N/A''") (simp_all add: validate_na_pick)
  have l: "validate_loop sf [na_pick, sample_pick 2, sample_pick 3] [] =
     (case validate_pick sf na_pick of
        Inl e \<Rightarrow> Inr [validated_sample_pick 2, validated_sample_pick 3]
      | Inr vp \<Rightarrow> Inr [vp, validated_sample_pick 2, validated_sample_pick 3])"
    by (simp add: validate_na_pick validate_sample_pick split: option.splits)
  then obtain vs where "validate_loop sf [na_pick, sample_pick 2, sample_pick 3] [] = Inr vs"
    by (cases "validate_pick sf na_pick") simp_all
  moreover have "map_of na_candidate ''top_10_picks'' =
      Some (JArr [na_pick, sample_pick 2, sample_pick 3])"
    by (simp add: na_candidate_def)
  moreover have "slice10 (JArr [na_pick, sample_pick 2, sample_pick 3]) =
      Inr [na_pick, sample_pick 2, sample_pick 3]"
    by (simp add: slice10_def)
  ultimately have "validate_recommendations sf (Some na_candidate) = Inl NameError"
    by (intro validate_reaches_return)
  then show ?thesis
    using c l by simp
qed

text \<open>
  Claim C9 as stated, that every candidate with a \<open>top_10_picks\<close> field makes the
  validator raise NameError, is false: a list of bare symbols raises AttributeError in
  the loop, before the return value is built.
\<close>

theorem not_always_NameError:
  "\<not> (\<forall>sf r. map_of r ''top_10_picks'' \<noteq> None \<longrightarrow>
        validate_recommendations sf (Some r) = Inl NameError)"
proof
  assume "\<forall>sf r. map_of r ''top_10_picks'' \<noteq> None \<longrightarrow>
        validate_recommendations sf (Some r) = Inl NameError"
  then have "validate_recommendations (\<lambda>s. None) (Some symbols_only_candidate) = Inl NameError"
    by (simp add: symbols_only_candidate_def)
  moreover have "validate_recommendations (\<lambda>s. None) (Some symbols_only_candidate) =
      Inl AttributeError"
    by (simp add: validate_recommendations_def symbols_only_candidate_def slice10_def
        validate_pick_def)
  ultimately show False
    by simp
qed

text \<open>
  Claim C9 as amended: for every candidate with a \<open>top_10_picks\<close> field the validator
  raises and never returns; the exception is NameError whenever the field is a list
  whose first ten entries are dictionaries with no integer beyond the range of a float
  as target price or confidence score.
\<close>

theorem validator_never_returns:
  assumes "map_of r ''top_10_picks'' = Some v"
  shows "(\<exists>e. validate_recommendations sf (Some r) = Inl e) \<and>
    ((\<exists>picks. v = JArr picks \<and> list_all pick_in_range (take 10 picks)) \<longrightarrow>
       validate_recommendations sf (Some r) = Inl NameError)"
proof (intro conjI impI)
  show "\<exists>e. validate_recommendations sf (Some r) = Inl e"
    using assms by (rule validate_never_returns)
next
  assume "\<exists>picks. v = JArr picks \<and> list_all pick_in_range (take 10 picks)"
  then obtain picks where p: "v = JArr picks" "list_all pick_in_range (take 10 picks)"
    by auto
  obtain vs where l: "validate_loop sf (take 10 picks) [] = Inr vs"
    using validate_loop_in_range [OF p(2)] by auto
  have s: "slice10 v = Inr (take 10 picks)"
    using p(1) by (simp add: slice10_def)
  show "validate_recommendations sf (Some r) = Inl NameError"
    using assms s l by (rule validate_reaches_return)
qed

theorem validator_never_returns_witness:
  "map_of na_candidate ''top_10_picks'' = Some (JArr [na_pick, sample_pick 2, sample_pick 3]) \<and>
   list_all pick_in_range (take 10 [na_pick, sample_pick 2, sample_pick 3]) \<and>
   validate_recommendations (\<lambda>s. None) (Some na_candidate) = Inl NameError"
proof -
  have m: "map_of na_candidate ''top_10_picks'' = Some (JArr [na_pick, sample_pick 2, sample_pick 3])"
    by (simp add: na_candidate_def)
  have a: "list_all pick_in_range (take 10 [na_pick, sample_pick 2, sample_pick 3])"
    by (simp add: pick_in_range_def na_pick_def sample_pick_def dict_get_def
        float_overflows_def)
  show ?thesis
    using validator_never_returns [OF m, of "\<lambda>s. None"] m a by blast
qed

end
